theory Spec2Isabelle
  imports Main
begin

section \<open>Values, requests and responses\<close>

text \<open>
  The values that travel through the handlers: what \<^verbatim>\<open>express.json()\<close> parses out of a
  request body, what the handlers store in a document and what they serialise into a
  response. \<open>JOid\<close> is a driver \<^verbatim>\<open>ObjectId\<close> and \<open>JDate\<close> a \<^verbatim>\<open>Date\<close>; numbers are restricted
  to integers (only their being zero or not is ever inspected). JavaScript's
  \<^verbatim>\<open>undefined\<close> is the \<open>None\<close> of \<open>val option\<close>.
\<close>

datatype val =
    JNull
  | JBool bool
  | JNum int
  | JStr string
  | JArr "val list"
  | JObj "(string \<times> val) list"
  | JOid nat
  | JDate nat

text \<open>JavaScript truthiness, as the \<^verbatim>\<open>!x\<close> tests of the handlers read it.\<close>

fun truthy :: "val option \<Rightarrow> bool" where
  "truthy None = False"
| "truthy (Some JNull) = False"
| "truthy (Some (JBool b)) = b"
| "truthy (Some (JNum n)) = (n \<noteq> 0)"
| "truthy (Some (JStr s)) = (s \<noteq> [])"
| "truthy (Some (JArr xs)) = True"
| "truthy (Some (JObj kvs)) = True"
| "truthy (Some (JOid i)) = True"
| "truthy (Some (JDate t)) = True"

text \<open>\<^verbatim>\<open>!s\<close> on a value that is a string or \<^verbatim>\<open>undefined\<close> (a header, an environment variable).\<close>

fun falsy_string :: "string option \<Rightarrow> bool" where
  "falsy_string None = True"
| "falsy_string (Some s) = (s = [])"

text \<open>
  \<^verbatim>\<open>s.split(c)\<close> for a one-character separator, and \<^verbatim>\<open>xs[i]\<close>, which is \<^verbatim>\<open>undefined\<close> beyond
  the end of the array.
\<close>

fun split_sep :: "char \<Rightarrow> string \<Rightarrow> string list" where
  "split_sep c [] = [[]]"
| "split_sep c (x # xs) =
     (if x = c then [] # split_sep c xs
      else (case split_sep c xs of [] \<Rightarrow> [[x]] | w # ws \<Rightarrow> (x # w) # ws))"

definition index :: "'a list \<Rightarrow> nat \<Rightarrow> 'a option" where
  "index xs i = (if i < length xs then Some (xs ! i) else None)"

text \<open>
  A request as a handler sees it: the \<^verbatim>\<open>Authorization\<close> header, the \<^verbatim>\<open>:id\<close> path parameter,
  the parsed body (an object, read with \<open>map_of\<close>), the \<^verbatim>\<open>req.user\<close> slot the auth gate
  fills, and the clock reading (in seconds) at which the request is handled.
\<close>

record request =
  authorization :: "string option"
  params_id :: string
  body :: "(string \<times> val) list"
  user :: "val option"
  arrival :: nat

datatype content = Json val | Text string | Empty

record response =
  status :: nat
  content :: content

definition json_response :: "nat \<Rightarrow> val \<Rightarrow> response" where
  "json_response code v = \<lparr>status = code, content = Json v\<rparr>"

definition message :: "string \<Rightarrow> val" where
  "message m = JObj [(''message'', JStr m)]"

text \<open>The \<^verbatim>\<open>catch (error)\<close> of every handler: \<^verbatim>\<open>res.status(500).json({ error: error.message })\<close>.\<close>

definition internal_error :: "string \<Rightarrow> response" where
  "internal_error m = json_response 500 (JObj [(''error'', JStr m)])"

record env =
  JWT_SECRET :: "string option"
  MONGO_URI :: "string option"
  PORT :: "string option"

section \<open>The libraries the server calls\<close>

text \<open>
  \<^verbatim>\<open>jsonwebtoken\<close>, \<^verbatim>\<open>bcrypt\<close> and the \<^verbatim>\<open>mongodb\<close> driver are dependencies, not code of the
  repository: the handlers are parameterised by what these calls return. A call that
  throws (or rejects) returns \<open>Inl\<close> of the error's message.
  \<^item> \<open>jwt_sign payload secret expiresIn clock\<close> and \<open>jwt_verify token secret clock\<close>;
  \<^item> \<open>bcrypt_hash data rounds\<close> and \<open>bcrypt_compare data hash\<close>;
  \<^item> \<open>ObjectId_isValid id\<close>, \<open>ObjectId_new id\<close> for \<^verbatim>\<open>new ObjectId(id)\<close>, and
    \<open>ObjectId_call id\<close> for \<^verbatim>\<open>ObjectId(id)\<close> called without \<^verbatim>\<open>new\<close>;
  \<^item> \<open>query_operators q v\<close>: whether a stored field value \<open>v\<close> satisfies a query document
    \<open>q\<close> made of \<^verbatim>\<open>$\<close>-operators;
  \<^item> \<open>MongoClient_new uri\<close>: whether the client constructor accepts the connection string.
\<close>

record libs =
  jwt_sign :: "val \<Rightarrow> string option \<Rightarrow> string \<Rightarrow> nat \<Rightarrow> string + string"
  jwt_verify :: "string option \<Rightarrow> string option \<Rightarrow> nat \<Rightarrow> string + val"
  bcrypt_hash :: "val option \<Rightarrow> nat \<Rightarrow> string + string"
  bcrypt_compare :: "val option \<Rightarrow> val option \<Rightarrow> string + bool"
  ObjectId_isValid :: "string \<Rightarrow> bool"
  ObjectId_new :: "string \<Rightarrow> string + nat"
  ObjectId_call :: "string \<Rightarrow> string + nat"
  query_operators :: "val \<Rightarrow> val option \<Rightarrow> string + bool"
  MongoClient_new :: "string option \<Rightarrow> bool"

section \<open>The document store\<close>

text \<open>
  A collection is the list of its documents in insertion order; a document is its \<^verbatim>\<open>_id\<close>
  and its other fields. The database holds the three collections the handlers name and
  the next identifier the driver hands out on \<^verbatim>\<open>insertOne\<close>. Operations on a connected
  database are modelled as succeeding; the handle \<^verbatim>\<open>db\<close> itself is \<open>None\<close> when
  \<^verbatim>\<open>connectDB\<close> caught a connection failure, and every \<^verbatim>\<open>db.collection(...)\<close> then throws.
\<close>

record document =
  ident :: nat
  entries :: "(string \<times> val) list"

record database =
  users :: "document list"
  students :: "document list"
  courses :: "document list"
  next_id :: nat

definition db_undefined :: response where
  "db_undefined = internal_error ''Cannot read properties of undefined (reading 'collection')''"

text \<open>The driver serialises an \<^verbatim>\<open>undefined\<close> field as \<^verbatim>\<open>null\<close>.\<close>

fun bson :: "val option \<Rightarrow> val" where
  "bson None = JNull"
| "bson (Some v) = v"

definition doc_json :: "document \<Rightarrow> val" where
  "doc_json d = JObj ((''_id'', JOid (ident d)) # entries d)"

definition insertOne :: "nat \<Rightarrow> (string \<times> val) list \<Rightarrow> document list \<Rightarrow> document list" where
  "insertOne i fs ds = ds @ [\<lparr>ident = i, entries = fs\<rparr>]"

definition findOne_id :: "nat \<Rightarrow> document list \<Rightarrow> document option" where
  "findOne_id i ds = find (\<lambda>d. ident d = i) ds"

text \<open>\<^verbatim>\<open>replaceOne({_id: i}, fs)\<close>: the matched count and the collection afterwards.\<close>

fun replaceOne :: "nat \<Rightarrow> (string \<times> val) list \<Rightarrow> document list \<Rightarrow> nat \<times> document list" where
  "replaceOne i fs [] = (0, [])"
| "replaceOne i fs (d # ds) =
     (if ident d = i then (1, \<lparr>ident = i, entries = fs\<rparr> # ds)
      else (case replaceOne i fs ds of (n, ds') \<Rightarrow> (n, d # ds')))"

text \<open>\<^verbatim>\<open>deleteOne({_id: i})\<close>: the deleted count and the collection afterwards.\<close>

fun deleteOne :: "nat \<Rightarrow> document list \<Rightarrow> nat \<times> document list" where
  "deleteOne i [] = (0, [])"
| "deleteOne i (d # ds) =
     (if ident d = i then (1, ds)
      else (case deleteOne i ds of (n, ds') \<Rightarrow> (n, d # ds')))"

text \<open>
  A query \<^verbatim>\<open>{email: q}\<close> against a stored field: a query document whose first key starts
  with \<^verbatim>\<open>$\<close> is an operator expression; any other value matches by equality, a stored
  array also by containing the value, and \<^verbatim>\<open>null\<close> also a missing field.
\<close>

fun is_operator :: "val \<Rightarrow> bool" where
  "is_operator (JObj ((k, v) # kvs)) = (case k of [] \<Rightarrow> False | c # cs \<Rightarrow> c = CHR ''$'')"
| "is_operator q = False"

fun array_contains :: "val option \<Rightarrow> val \<Rightarrow> bool" where
  "array_contains (Some (JArr xs)) q = (q \<in> set xs)"
| "array_contains v q = False"

definition matches :: "libs \<Rightarrow> val option \<Rightarrow> val option \<Rightarrow> string + bool" where
  "matches L q v =
     (if is_operator (bson q) then query_operators L (bson q) v
      else Inr (v = Some (bson q) \<or> (bson q = JNull \<and> v = None) \<or> array_contains v (bson q)))"

text \<open>\<^verbatim>\<open>findOne({ email })\<close>: the first document that matches.\<close>

fun findOne_email :: "libs \<Rightarrow> val option \<Rightarrow> document list \<Rightarrow> string + document option" where
  "findOne_email L q [] = Inr None"
| "findOne_email L q (d # ds) =
     (case matches L q (map_of (entries d) ''email'') of
        Inl e \<Rightarrow> Inl e
      | Inr True \<Rightarrow> Inr (Some d)
      | Inr False \<Rightarrow> findOne_email L q ds)"

section \<open>The authenticated server\<close>

text \<open>
  The server of \<^verbatim>\<open>src/unnamed/part_000\<close>. A handler takes the request and the database handle
  and returns the response it writes and the handle afterwards.
\<close>

type_synonym handler = "request \<Rightarrow> database option \<Rightarrow> response \<times> database option"

subsection \<open>Auth middleware\<close>

text \<open>
  \<^verbatim>\<open>authMiddleware\<close> (lines 41-57).
  \<open>Inl\<close> is the response the gate writes itself; \<open>Inr\<close> is the request, with the decoded
  claims in \<^verbatim>\<open>req.user\<close>, handed to \<^verbatim>\<open>next()\<close>. \<^verbatim>\<open>!authHeader\<close> holds for a missing header
  and for an empty one.
\<close>

definition authMiddleware :: "libs \<Rightarrow> env \<Rightarrow> request \<Rightarrow> response + request" where
  "authMiddleware L e rq =
     (case authorization rq of
        None \<Rightarrow> Inl (json_response 401 (message ''No token provided''))
      | Some authHeader \<Rightarrow>
          if authHeader = [] then Inl (json_response 401 (message ''No token provided''))
          else
            (let token = index (split_sep (CHR '' '') authHeader) 1 in
             case jwt_verify L token (JWT_SECRET e) (arrival rq) of
               Inl err \<Rightarrow> Inl (json_response 401 (message ''Invalid token''))
             | Inr decoded \<Rightarrow> Inr (rq\<lparr>user := Some decoded\<rparr>)))"

text \<open>\<^verbatim>\<open>app.METHOD(path, authMiddleware, handler)\<close>.\<close>

definition guarded :: "libs \<Rightarrow> env \<Rightarrow> handler \<Rightarrow> handler" where
  "guarded L e h rq s =
     (case authMiddleware L e rq of Inl res \<Rightarrow> (res, s) | Inr rq' \<Rightarrow> h rq' s)"

subsection \<open>Test route and auth routes\<close>

text \<open>\<^verbatim>\<open>GET /\<close> (lines 62-64), \<^verbatim>\<open>POST /auth/register\<close> (lines 71-98), \<^verbatim>\<open>POST /auth/login\<close> (lines 101-121).\<close>

definition get_root :: handler where
  "get_root rq s = (\<lparr>status = 200, content = Text ''Student Management API is running''\<rparr>, s)"

definition post_auth_register :: "libs \<Rightarrow> handler" where
  "post_auth_register L rq s =
     (let email = map_of (body rq) ''email''; password = map_of (body rq) ''password'' in
      if \<not> truthy email \<or> \<not> truthy password
      then (json_response 400 (message ''Email and password required''), s)
      else
        (case s of
           None \<Rightarrow> (db_undefined, s)
         | Some d \<Rightarrow>
             (case findOne_email L email (users d) of
                Inl err \<Rightarrow> (internal_error err, s)
              | Inr (Some existingUser) \<Rightarrow> (json_response 400 (message ''User already exists''), s)
              | Inr None \<Rightarrow>
                  (case bcrypt_hash L password 10 of
                     Inl err \<Rightarrow> (internal_error err, s)
                   | Inr hashedPassword \<Rightarrow>
                       (let user = [(''email'', bson email),
                                    (''password'', JStr hashedPassword),
                                    (''createdAt'', JDate (arrival rq))];
                            insertedId = next_id d
                        in (json_response 201
                              (JObj [(''message'', JStr ''User created''), (''id'', JOid insertedId)]),
                            Some (d\<lparr>users := insertOne insertedId user (users d),
                                    next_id := Suc insertedId\<rparr>)))))))"

definition post_auth_login :: "libs \<Rightarrow> env \<Rightarrow> handler" where
  "post_auth_login L e rq s =
     (let email = map_of (body rq) ''email''; password = map_of (body rq) ''password'' in
      case s of
        None \<Rightarrow> (db_undefined, s)
      | Some d \<Rightarrow>
          (case findOne_email L email (users d) of
             Inl err \<Rightarrow> (internal_error err, s)
           | Inr None \<Rightarrow> (json_response 401 (message ''Invalid credentials''), s)
           | Inr (Some u) \<Rightarrow>
               (case bcrypt_compare L password (map_of (entries u) ''password'') of
                  Inl err \<Rightarrow> (internal_error err, s)
                | Inr isMatch \<Rightarrow>
                    if \<not> isMatch then (json_response 401 (message ''Invalid credentials''), s)
                    else
                      (case jwt_sign L (JObj [(''userId'', JOid (ident u))]) (JWT_SECRET e) ''1h''
                              (arrival rq) of
                         Inl err \<Rightarrow> (internal_error err, s)
                       | Inr token \<Rightarrow> (json_response 200 (JObj [(''token'', JStr token)]), s)))))"

subsection \<open>Object literals built from the body\<close>

text \<open>
  \<open>pick rq ks\<close> is the literal \<^verbatim>\<open>{ k: req.body.k, ... }\<close>; \<open>missing\<close> is the chain of
  \<^verbatim>\<open>!obj.k || ...\<close> over its fields; \<open>stored\<close> is the object as the driver writes it.
\<close>

definition pick :: "request \<Rightarrow> string list \<Rightarrow> (string \<times> val option) list" where
  "pick rq ks = map (\<lambda>k. (k, map_of (body rq) k)) ks"

definition missing :: "(string \<times> val option) list \<Rightarrow> bool" where
  "missing obj = list_ex (\<lambda>kv. \<not> truthy (snd kv)) obj"

definition stored :: "(string \<times> val option) list \<Rightarrow> (string \<times> val) list" where
  "stored obj = map (\<lambda>kv. (fst kv, bson (snd kv))) obj"

definition student_fields :: "string list" where
  "student_fields =
     [''firstName'', ''lastName'', ''email'', ''course'', ''year'', ''registrationNumber'']"

definition course_fields :: "string list" where
  "course_fields =
     [''name'', ''code'', ''instructor'', ''credits'', ''semester'', ''department'', ''year'']"

definition no_content :: response where
  "no_content = \<lparr>status = 204, content = Empty\<rparr>"

subsection \<open>Students routes\<close>

text \<open>Lines 128-253: list, read by id, create, replace, delete.\<close>

definition get_students :: handler where
  "get_students rq s =
     (case s of
        None \<Rightarrow> (db_undefined, s)
      | Some d \<Rightarrow> (json_response 200 (JArr (map doc_json (students d))), s))"

definition get_students_id :: "libs \<Rightarrow> handler" where
  "get_students_id L rq s =
     (let id = params_id rq in
      if \<not> ObjectId_isValid L id then (json_response 400 (message ''Invalid student ID''), s)
      else
        (case s of
           None \<Rightarrow> (db_undefined, s)
         | Some d \<Rightarrow>
             (case ObjectId_new L id of
                Inl err \<Rightarrow> (internal_error err, s)
              | Inr oid \<Rightarrow>
                  (case findOne_id oid (students d) of
                     None \<Rightarrow> (json_response 404 (message ''Student not found''), s)
                   | Some student \<Rightarrow> (json_response 200 (doc_json student), s)))))"

definition post_students :: handler where
  "post_students rq s =
     (let student = pick rq student_fields @ [(''createdAt'', Some (JDate (arrival rq)))] in
      if missing (pick rq student_fields)
      then (json_response 400 (message ''All fields are required''), s)
      else
        (case s of
           None \<Rightarrow> (db_undefined, s)
         | Some d \<Rightarrow>
             (let insertedId = next_id d in
              (json_response 201
                 (JObj [(''message'', JStr ''Student created''), (''id'', JOid insertedId)]),
               Some (d\<lparr>students := insertOne insertedId (stored student) (students d),
                       next_id := Suc insertedId\<rparr>)))))"

definition put_students_id :: "libs \<Rightarrow> handler" where
  "put_students_id L rq s =
     (let id = params_id rq in
      if \<not> ObjectId_isValid L id then (json_response 400 (message ''Invalid student ID''), s)
      else
        (let updatedStudent = pick rq student_fields in
         if missing updatedStudent
         then (json_response 400 (message ''All fields are required''), s)
         else
           (case s of
              None \<Rightarrow> (db_undefined, s)
            | Some d \<Rightarrow>
                (case ObjectId_new L id of
                   Inl err \<Rightarrow> (internal_error err, s)
                 | Inr oid \<Rightarrow>
                     (case replaceOne oid (stored updatedStudent) (students d) of
                        (matchedCount, ds) \<Rightarrow>
                          if matchedCount = 0
                          then (json_response 404 (message ''Student not found''),
                                Some (d\<lparr>students := ds\<rparr>))
                          else (no_content, Some (d\<lparr>students := ds\<rparr>)))))))"

definition delete_students_id :: "libs \<Rightarrow> handler" where
  "delete_students_id L rq s =
     (let id = params_id rq in
      if \<not> ObjectId_isValid L id then (json_response 400 (message ''Invalid student ID''), s)
      else
        (case s of
           None \<Rightarrow> (db_undefined, s)
         | Some d \<Rightarrow>
             (case ObjectId_new L id of
                Inl err \<Rightarrow> (internal_error err, s)
              | Inr oid \<Rightarrow>
                  (case deleteOne oid (students d) of
                     (deletedCount, ds) \<Rightarrow>
                       if deletedCount = 0
                       then (json_response 404 (message ''Student not found''),
                             Some (d\<lparr>students := ds\<rparr>))
                       else (no_content, Some (d\<lparr>students := ds\<rparr>))))))"

subsection \<open>Courses routes\<close>

text \<open>Lines 260-388; a course gets no \<^verbatim>\<open>createdAt\<close>.\<close>

definition get_courses :: handler where
  "get_courses rq s =
     (case s of
        None \<Rightarrow> (db_undefined, s)
      | Some d \<Rightarrow> (json_response 200 (JArr (map doc_json (courses d))), s))"

definition get_courses_id :: "libs \<Rightarrow> handler" where
  "get_courses_id L rq s =
     (let id = params_id rq in
      if \<not> ObjectId_isValid L id then (json_response 400 (message ''Invalid course ID''), s)
      else
        (case s of
           None \<Rightarrow> (db_undefined, s)
         | Some d \<Rightarrow>
             (case ObjectId_new L id of
                Inl err \<Rightarrow> (internal_error err, s)
              | Inr oid \<Rightarrow>
                  (case findOne_id oid (courses d) of
                     None \<Rightarrow> (json_response 404 (message ''Course not found''), s)
                   | Some course \<Rightarrow> (json_response 200 (doc_json course), s)))))"

definition post_courses :: handler where
  "post_courses rq s =
     (let course = pick rq course_fields in
      if missing course
      then (json_response 400 (message ''All fields are required''), s)
      else
        (case s of
           None \<Rightarrow> (db_undefined, s)
         | Some d \<Rightarrow>
             (let insertedId = next_id d in
              (json_response 201
                 (JObj [(''message'', JStr ''Course created''), (''id'', JOid insertedId)]),
               Some (d\<lparr>courses := insertOne insertedId (stored course) (courses d),
                       next_id := Suc insertedId\<rparr>)))))"

definition put_courses_id :: "libs \<Rightarrow> handler" where
  "put_courses_id L rq s =
     (let id = params_id rq in
      if \<not> ObjectId_isValid L id then (json_response 400 (message ''Invalid course ID''), s)
      else
        (let updatedCourse = pick rq course_fields in
         if missing updatedCourse
         then (json_response 400 (message ''All fields are required''), s)
         else
           (case s of
              None \<Rightarrow> (db_undefined, s)
            | Some d \<Rightarrow>
                (case ObjectId_new L id of
                   Inl err \<Rightarrow> (internal_error err, s)
                 | Inr oid \<Rightarrow>
                     (case replaceOne oid (stored updatedCourse) (courses d) of
                        (matchedCount, ds) \<Rightarrow>
                          if matchedCount = 0
                          then (json_response 404 (message ''Course not found''),
                                Some (d\<lparr>courses := ds\<rparr>))
                          else (no_content, Some (d\<lparr>courses := ds\<rparr>)))))))"

definition delete_courses_id :: "libs \<Rightarrow> handler" where
  "delete_courses_id L rq s =
     (let id = params_id rq in
      if \<not> ObjectId_isValid L id then (json_response 400 (message ''Invalid course ID''), s)
      else
        (case s of
           None \<Rightarrow> (db_undefined, s)
         | Some d \<Rightarrow>
             (case ObjectId_new L id of
                Inl err \<Rightarrow> (internal_error err, s)
              | Inr oid \<Rightarrow>
                  (case deleteOne oid (courses d) of
                     (deletedCount, ds) \<Rightarrow>
                       if deletedCount = 0
                       then (json_response 404 (message ''Course not found''),
                             Some (d\<lparr>courses := ds\<rparr>))
                       else (no_content, Some (d\<lparr>courses := ds\<rparr>))))))"

subsection \<open>The route table and start-up\<close>

datatype route =
    GET_root
  | POST_auth_register
  | POST_auth_login
  | GET_students
  | GET_students_id
  | POST_students
  | PUT_students_id
  | DELETE_students_id
  | GET_courses
  | GET_courses_id
  | POST_courses
  | PUT_courses_id
  | DELETE_courses_id

fun app :: "libs \<Rightarrow> env \<Rightarrow> route \<Rightarrow> handler" where
  "app L e GET_root = get_root"
| "app L e POST_auth_register = post_auth_register L"
| "app L e POST_auth_login = post_auth_login L e"
| "app L e GET_students = get_students"
| "app L e GET_students_id = get_students_id L"
| "app L e POST_students = guarded L e post_students"
| "app L e PUT_students_id = guarded L e (put_students_id L)"
| "app L e DELETE_students_id = guarded L e (delete_students_id L)"
| "app L e GET_courses = get_courses"
| "app L e GET_courses_id = get_courses_id L"
| "app L e POST_courses = guarded L e post_courses"
| "app L e PUT_courses_id = guarded L e (put_courses_id L)"
| "app L e DELETE_courses_id = guarded L e (delete_courses_id L)"

text \<open>
  What running the module leaves behind: a process that has exited with a code, one that
  died of an uncaught exception, or one listening on a port with its database handle.
\<close>

datatype process = Exited nat | Crashed | Listening val "database option"

text \<open>\<^verbatim>\<open>process.env.PORT || 3000\<close>.\<close>

definition port :: "env \<Rightarrow> val" where
  "port e = (case PORT e of None \<Rightarrow> JNum 3000 | Some p \<Rightarrow> if p = [] then JNum 3000 else JStr p)"

text \<open>
  The module from top to bottom: the \<^verbatim>\<open>JWT_SECRET\<close> check (lines 3-6), the client
  constructor (line 22), the route registrations, then \<^verbatim>\<open>startServer()\<close> (lines
  393-400). \<open>conn\<close> is what \<^verbatim>\<open>connectDB\<close> leaves in \<^verbatim>\<open>db\<close>: the
  database, or \<open>None\<close> when the connection failed and the error was logged.
\<close>

definition server_main :: "libs \<Rightarrow> env \<Rightarrow> database option \<Rightarrow> process" where
  "server_main L e conn =
     (if falsy_string (JWT_SECRET e) then Exited 1
      else if \<not> MongoClient_new L (MONGO_URI e) then Crashed
      else Listening (port e) conn)"

text \<open>A request reaches a route only in a listening process.\<close>

fun serve :: "libs \<Rightarrow> env \<Rightarrow> process \<Rightarrow> route \<Rightarrow> request \<Rightarrow> (response \<times> process) option" where
  "serve L e (Listening p s) r rq = (case app L e r rq s of (res, s') \<Rightarrow> Some (res, Listening p s'))"
| "serve L e (Exited c) r rq = None"
| "serve L e Crashed r rq = None"

section \<open>The unauthenticated server\<close>

text \<open>
  The server of \<^verbatim>\<open>src/server.js\<close>: the root route and four students routes, none behind a
  gate, no check of the environment at the top of the module. Its id routes evaluate
  \<^verbatim>\<open>new require("mongodb").ObjectId(req.params.id)\<close> first, where \<^verbatim>\<open>new\<close> binds to the
  \<^verbatim>\<open>require\<close> call, so that \<^verbatim>\<open>ObjectId\<close> is called as a plain function on the id.
\<close>

definition legacy_get_students :: handler where
  "legacy_get_students rq s =
     (case s of
        None \<Rightarrow> (db_undefined, s)
      | Some d \<Rightarrow> (json_response 200 (JArr (map doc_json (students d))), s))"

definition legacy_post_students :: handler where
  "legacy_post_students rq s =
     (let student = pick rq student_fields @ [(''createdAt'', Some (JDate (arrival rq)))] in
      if missing (pick rq student_fields)
      then (json_response 400 (message ''All fields are required''), s)
      else
        (case s of
           None \<Rightarrow> (db_undefined, s)
         | Some d \<Rightarrow>
             (let insertedId = next_id d in
              (json_response 201
                 (JObj [(''message'', JStr ''Student created successfully''),
                        (''id'', JOid insertedId)]),
               Some (d\<lparr>students := insertOne insertedId (stored student) (students d),
                       next_id := Suc insertedId\<rparr>)))))"

definition legacy_put_students_id :: "libs \<Rightarrow> handler" where
  "legacy_put_students_id L rq s =
     (case ObjectId_call L (params_id rq) of
        Inl err \<Rightarrow> (internal_error err, s)
      | Inr studentId \<Rightarrow>
          (let updatedStudent = pick rq student_fields in
           if missing updatedStudent
           then (json_response 400 (message ''All fields are required''), s)
           else
             (case s of
                None \<Rightarrow> (db_undefined, s)
              | Some d \<Rightarrow>
                  (case replaceOne studentId (stored updatedStudent) (students d) of
                     (matchedCount, ds) \<Rightarrow>
                       if matchedCount = 0
                       then (json_response 404 (message ''Student not found''),
                             Some (d\<lparr>students := ds\<rparr>))
                       else (no_content, Some (d\<lparr>students := ds\<rparr>))))))"

definition legacy_delete_students_id :: "libs \<Rightarrow> handler" where
  "legacy_delete_students_id L rq s =
     (case ObjectId_call L (params_id rq) of
        Inl err \<Rightarrow> (internal_error err, s)
      | Inr studentId \<Rightarrow>
          (case s of
             None \<Rightarrow> (db_undefined, s)
           | Some d \<Rightarrow>
               (case deleteOne studentId (students d) of
                  (deletedCount, ds) \<Rightarrow>
                    if deletedCount = 0
                    then (json_response 404 (message ''Student not found''),
                          Some (d\<lparr>students := ds\<rparr>))
                    else (no_content, Some (d\<lparr>students := ds\<rparr>)))))"

datatype legacy_route =
    LEGACY_GET_root
  | LEGACY_GET_students
  | LEGACY_POST_students
  | LEGACY_PUT_students_id
  | LEGACY_DELETE_students_id

fun legacy_app :: "libs \<Rightarrow> legacy_route \<Rightarrow> handler" where
  "legacy_app L LEGACY_GET_root = get_root"
| "legacy_app L LEGACY_GET_students = legacy_get_students"
| "legacy_app L LEGACY_POST_students = legacy_post_students"
| "legacy_app L LEGACY_PUT_students_id = legacy_put_students_id L"
| "legacy_app L LEGACY_DELETE_students_id = legacy_delete_students_id L"

definition legacy_main :: "libs \<Rightarrow> env \<Rightarrow> database option \<Rightarrow> process" where
  "legacy_main L e conn =
     (if \<not> MongoClient_new L (MONGO_URI e) then Crashed
      else Listening (port e) conn)"

fun legacy_serve ::
  "libs \<Rightarrow> process \<Rightarrow> legacy_route \<Rightarrow> request \<Rightarrow> (response \<times> process) option" where
  "legacy_serve L (Listening p s) r rq =
     (case legacy_app L r rq s of (res, s') \<Rightarrow> Some (res, Listening p s'))"
| "legacy_serve L (Exited c) r rq = None"
| "legacy_serve L Crashed r rq = None"

section \<open>A small instance of the libraries\<close>

text \<open>
  One concrete choice of the library parameters, small enough to run the handlers on
  concrete requests. A token is a run of \<^verbatim>\<open>x\<close> whose length is its expiry time; a hash is
  the reversed password behind a prefix; an identifier is 24 hexadecimal digits read as a
  number; no query operator is known.
\<close>

definition stub_sign :: "val \<Rightarrow> string option \<Rightarrow> string \<Rightarrow> nat \<Rightarrow> string + string" where
  "stub_sign payload secret expiresIn clock =
     (if falsy_string secret then Inl ''secretOrPrivateKey must have a value''
      else if expiresIn = ''1h'' then Inr (replicate (clock + 3600) (CHR ''x''))
      else Inl ''unsupported expiresIn'')"

definition stub_verify :: "string option \<Rightarrow> string option \<Rightarrow> nat \<Rightarrow> string + val" where
  "stub_verify token secret clock =
     (case token of
        None \<Rightarrow> Inl ''jwt must be provided''
      | Some t \<Rightarrow>
          if t = [] then Inl ''jwt must be provided''
          else if falsy_string secret then Inl ''secret or public key must be provided''
          else if \<not> list_all (\<lambda>c. c = CHR ''x'') t then Inl ''jwt malformed''
          else if length t \<le> clock then Inl ''jwt expired''
          else Inr (JObj [(''exp'', JNum (int (length t)))]))"

fun stub_hash :: "val option \<Rightarrow> nat \<Rightarrow> string + string" where
  "stub_hash (Some (JStr p)) rounds = Inr (''$stub$'' @ rev p)"
| "stub_hash v rounds = Inl ''data must be a string''"

fun stub_compare :: "val option \<Rightarrow> val option \<Rightarrow> string + bool" where
  "stub_compare (Some (JStr p)) (Some (JStr h)) = Inr (h = ''$stub$'' @ rev p)"
| "stub_compare v w = Inl ''data and hash must be strings''"

definition hex_value :: "char \<Rightarrow> nat option" where
  "hex_value c =
     (let n = (of_char c :: nat) in
      if 48 \<le> n \<and> n \<le> 57 then Some (n - 48)
      else if 97 \<le> n \<and> n \<le> 102 then Some (n - 87)
      else if 65 \<le> n \<and> n \<le> 70 then Some (n - 55)
      else None)"

definition stub_isValid :: "string \<Rightarrow> bool" where
  "stub_isValid s = (length s = 24 \<and> list_all (\<lambda>c. hex_value c \<noteq> None) s)"

definition stub_ObjectId :: "string \<Rightarrow> string + nat" where
  "stub_ObjectId s =
     (if stub_isValid s
      then Inr (foldl (\<lambda>a c. 16 * a + (case hex_value c of None \<Rightarrow> 0 | Some v \<Rightarrow> v)) 0 s)
      else Inl ''input must be a 24 character hex string'')"

definition stub_libs :: libs where
  "stub_libs =
     \<lparr>jwt_sign = stub_sign,
      jwt_verify = stub_verify,
      bcrypt_hash = stub_hash,
      bcrypt_compare = stub_compare,
      ObjectId_isValid = stub_isValid,
      ObjectId_new = stub_ObjectId,
      ObjectId_call = stub_ObjectId,
      query_operators = (\<lambda>q v. Inl ''unknown operator''),
      MongoClient_new = (\<lambda>uri. \<not> falsy_string uri)\<rparr>"

definition stub_env :: env where
  "stub_env = \<lparr>JWT_SECRET = Some ''s3cret'', MONGO_URI = Some ''mongodb://localhost'', PORT = None\<rparr>"

definition empty_db :: database where
  "empty_db = \<lparr>users = [], students = [], courses = [], next_id = 0\<rparr>"

section \<open>Vocabulary of the properties\<close>

text \<open>The routes the authenticated server registers behind \<open>authMiddleware\<close>.\<close>

definition protected_routes :: "route list" where
  "protected_routes =
     [POST_students, PUT_students_id, DELETE_students_id,
      POST_courses, PUT_courses_id, DELETE_courses_id]"

text \<open>The gate hands the request to the handler.\<close>

definition admits :: "libs \<Rightarrow> env \<Rightarrow> request \<Rightarrow> bool" where
  "admits L e rq = (\<not> isl (authMiddleware L e rq))"

text \<open>Sample data for running the handlers.\<close>

definition student_body :: "(string \<times> val) list" where
  "student_body =
     [(''firstName'', JStr ''Ada''), (''lastName'', JStr ''Lovelace''),
      (''email'', JStr ''ada@example.org''), (''course'', JStr ''Mathematics''),
      (''year'', JNum 2), (''registrationNumber'', JStr ''R-001'')]"

definition bare_request :: request where
  "bare_request =
     \<lparr>authorization = None, params_id = ''not-an-id'', body = student_body, user = None,
      arrival = 10\<rparr>"

text \<open>
  The id parameter is not a well-formed identifier; the id parameter is well-formed and
  names no document of a collection.
\<close>

definition malformed :: "libs \<Rightarrow> request \<Rightarrow> bool" where
  "malformed L rq = (\<not> ObjectId_isValid L (params_id rq))"

definition names_none :: "libs \<Rightarrow> request \<Rightarrow> document list \<Rightarrow> bool" where
  "names_none L rq ds =
     (ObjectId_isValid L (params_id rq) \<and>
      (case ObjectId_new L (params_id rq) of
         Inl err \<Rightarrow> False
       | Inr oid \<Rightarrow> findOne_id oid ds = None))"

text \<open>More sample data: a request with a token the small instance accepts until time 20.\<close>

definition signed_request :: request where
  "signed_request =
     \<lparr>authorization = Some ''Bearer xxxxxxxxxxxxxxxxxxxx'',
      params_id = ''000000000000000000000001'', body = student_body, user = None,
      arrival = 10\<rparr>"

definition old_db :: database where
  "old_db =
     \<lparr>users = [],
      students = [\<lparr>ident = 1, entries = [(''firstName'', JStr ''A.''), (''nickname'', JStr ''ada''),
                                          (''createdAt'', JDate 3)]\<rparr>],
      courses = [], next_id = 2\<rparr>"

definition unknown_id_request :: request where
  "unknown_id_request = signed_request\<lparr>params_id := ''0000000000000000000000ff''\<rparr>"

text \<open>A database with one registered user, and a request carrying credentials.\<close>

definition users_db :: database where
  "users_db =
     \<lparr>users = [\<lparr>ident = 7, entries = [(''email'', JStr ''a@b.com''),
                                       (''password'', JStr ''$stub$wp''),
                                       (''createdAt'', JDate 1)]\<rparr>],
      students = [], courses = [], next_id = 8\<rparr>"

definition login_request :: "string \<Rightarrow> string \<Rightarrow> request" where
  "login_request email password =
     \<lparr>authorization = None, params_id = [],
      body = [(''email'', JStr email), (''password'', JStr password)], user = None, arrival = 0\<rparr>"

text \<open>The user document carries the email \<open>em\<close>.\<close>

definition with_email :: "val \<Rightarrow> document \<Rightarrow> bool" where
  "with_email em u = (map_of (entries u) ''email'' = Some em)"

text \<open>
  Modelled from the spec: the token library (\<^verbatim>\<open>jsonwebtoken\<close>), which is not among the
  sources. "\<^verbatim>\<open>issue\<close> produces a signed token embedding the claims and an expiration 1 hour
  from issuance; \<^verbatim>\<open>verify\<close> fails if the signature is invalid, malformed, or expired": a
  token signed with \<^verbatim>\<open>expiresIn: "1h"\<close> at time \<open>issued\<close> contains no space, and from then on
  verifying it under the same secret fails exactly from \<open>issued + 3600\<close> seconds on.
\<close>

definition jwt_one_hour :: "libs \<Rightarrow> bool" where
  "jwt_one_hour L =
     (\<forall>payload secret issued tok.
        jwt_sign L payload secret ''1h'' issued = Inr tok \<longrightarrow>
          CHR '' '' \<notin> set tok \<and>
          (\<forall>t. issued \<le> t \<longrightarrow> isl (jwt_verify L (Some tok) secret t) = (issued + 3600 \<le> t)))"

section \<open>Properties of the auth gate\<close>

lemma authMiddleware_no_header:
  "falsy_string (authorization rq) \<Longrightarrow>
     authMiddleware L e rq = Inl (json_response 401 (message ''No token provided''))"
  by (cases "authorization rq") (simp_all add: authMiddleware_def)

lemma authMiddleware_bad_token:
  "authorization rq = Some h \<Longrightarrow> h \<noteq> [] \<Longrightarrow>
   isl (jwt_verify L (index (split_sep (CHR '' '') h) 1) (JWT_SECRET e) (arrival rq)) \<Longrightarrow>
     authMiddleware L e rq = Inl (json_response 401 (message ''Invalid token''))"
  by (auto simp: authMiddleware_def Let_def split: sum.splits)

lemma authMiddleware_good_token:
  "authorization rq = Some h \<Longrightarrow> h \<noteq> [] \<Longrightarrow>
   jwt_verify L (index (split_sep (CHR '' '') h) 1) (JWT_SECRET e) (arrival rq) = Inr claims \<Longrightarrow>
     authMiddleware L e rq = Inr (rq\<lparr>user := Some claims\<rparr>)"
  by (simp add: authMiddleware_def Let_def)

lemma authMiddleware_body:
  "authMiddleware L e rq = Inr rq' \<Longrightarrow> \<exists>claims. rq' = rq\<lparr>user := Some claims\<rparr>"
  by (auto simp: authMiddleware_def Let_def split: option.splits if_splits sum.splits)

lemma guarded_reject:
  "authMiddleware L e rq = Inl res \<Longrightarrow> guarded L e h rq s = (res, s)"
  by (simp add: guarded_def)

lemma app_protected:
  "r \<in> set protected_routes \<Longrightarrow> authMiddleware L e rq = Inl res \<Longrightarrow> app L e r rq s = (res, s)"
  by (auto simp: protected_routes_def guarded_reject)

text \<open>
  C1 (as amended). On each of the six write routes of the authenticated server, a request
  with no \<^verbatim>\<open>Authorization\<close> header, or with an empty one, is answered 401
  \<^verbatim>\<open>{message: "No token provided"}\<close>; a request with a non-empty header whose second
  space-separated component fails verification is answered 401
  \<^verbatim>\<open>{message: "Invalid token"}\<close>; in both cases the database is left as it was.
\<close>

theorem gate_rejects_unauthenticated_writes:
  assumes "r \<in> set protected_routes"
  shows "(falsy_string (authorization rq) \<longrightarrow>
            app L e r rq s = (json_response 401 (message ''No token provided''), s)) \<and>
         (\<forall>h. authorization rq = Some h \<and> h \<noteq> [] \<and>
              isl (jwt_verify L (index (split_sep (CHR '' '') h) 1) (JWT_SECRET e) (arrival rq)) \<longrightarrow>
            app L e r rq s = (json_response 401 (message ''Invalid token''), s))"
  using assms by (auto intro!: app_protected authMiddleware_no_header authMiddleware_bad_token)

text \<open>
  The theorem at work: a \<^verbatim>\<open>DELETE /students/:id\<close> without a header, and a
  \<^verbatim>\<open>PUT /courses/:id\<close> with a forged token.
\<close>

theorem gate_rejects_unauthenticated_writes_witness:
  "app stub_libs stub_env DELETE_students_id bare_request (Some empty_db) =
     (json_response 401 (message ''No token provided''), Some empty_db) \<and>
   app stub_libs stub_env PUT_courses_id (bare_request\<lparr>authorization := Some ''Bearer forged''\<rparr>)
       (Some empty_db) =
     (json_response 401 (message ''Invalid token''), Some empty_db)"
  using gate_rejects_unauthenticated_writes
          [of DELETE_students_id bare_request stub_libs stub_env "Some empty_db"]
        gate_rejects_unauthenticated_writes
          [of PUT_courses_id "bare_request\<lparr>authorization := Some ''Bearer forged''\<rparr>"
              stub_libs stub_env "Some empty_db"]
  by (simp add: protected_routes_def bare_request_def stub_libs_def stub_verify_def index_def
        stub_env_def)

text \<open>
  C1 as stated fails twice. In the authenticated server a request that carries an empty
  \<^verbatim>\<open>Authorization\<close> header, whose token (there is none) fails verification, is answered
  "No token provided", not "Invalid token". And \<^verbatim>\<open>src/server.js\<close> registers
  \<^verbatim>\<open>POST /students\<close> without a gate: a request without a header is answered 201 and a
  document is inserted.
\<close>

theorem empty_header_and_legacy_writes_counterexample:
  "authorization (bare_request\<lparr>authorization := Some []\<rparr>) = Some [] \<and>
   isl (jwt_verify stub_libs (index (split_sep (CHR '' '') []) 1) (JWT_SECRET stub_env) 10) \<and>
   fst (app stub_libs stub_env POST_students (bare_request\<lparr>authorization := Some []\<rparr>)
         (Some empty_db)) \<noteq> json_response 401 (message ''Invalid token'') \<and>
   authorization bare_request = None \<and>
   status (fst (legacy_app stub_libs LEGACY_POST_students bare_request (Some empty_db))) = 201 \<and>
   snd (legacy_app stub_libs LEGACY_POST_students bare_request (Some empty_db)) \<noteq> Some empty_db"
  by (simp add: bare_request_def stub_libs_def stub_verify_def index_def stub_env_def
        guarded_def authMiddleware_def json_response_def message_def
        legacy_post_students_def missing_def pick_def student_fields_def student_body_def
        empty_db_def insertOne_def Let_def)

lemma split_sep_no_sep: "c \<notin> set t \<Longrightarrow> split_sep c t = [t]"
  by (induction t) auto

lemma split_sep_append: "c \<notin> set w \<Longrightarrow> split_sep c (w @ c # t) = w # split_sep c t"
  by (induction w) auto

lemma index_split_second:
  "c \<notin> set w \<Longrightarrow> c \<notin> set t \<Longrightarrow> index (split_sep c (w @ c # t)) 1 = Some t"
  by (simp add: split_sep_append split_sep_no_sep index_def)

lemma index_split_none: "c \<notin> set h \<Longrightarrow> index (split_sep c h) 1 = None"
  by (simp add: split_sep_no_sep index_def)

text \<open>
  C9 (as amended). The gate never looks at the scheme: a header \<^verbatim>\<open><word> <token>\<close> whose
  token verifies is admitted whatever the word is. A non-empty header without a space
  has no second component, so the library is handed \<^verbatim>\<open>undefined\<close>, and when it rejects
  that the answer is 401 \<^verbatim>\<open>{message: "Invalid token"}\<close>. An empty header is answered
  "No token provided".
\<close>

theorem gate_ignores_scheme:
  "(CHR '' '' \<notin> set word \<and> CHR '' '' \<notin> set tok \<and>
    authorization rq = Some (word @ '' '' @ tok) \<and>
    jwt_verify L (Some tok) (JWT_SECRET e) (arrival rq) = Inr claims \<longrightarrow>
      authMiddleware L e rq = Inr (rq\<lparr>user := Some claims\<rparr>)) \<and>
   (authorization rq = Some h \<and> h \<noteq> [] \<and> CHR '' '' \<notin> set h \<and>
    isl (jwt_verify L None (JWT_SECRET e) (arrival rq)) \<longrightarrow>
      authMiddleware L e rq = Inl (json_response 401 (message ''Invalid token''))) \<and>
   (authorization rq = Some [] \<longrightarrow>
      authMiddleware L e rq = Inl (json_response 401 (message ''No token provided'')))"
proof (intro conjI impI)
  assume a: "CHR '' '' \<notin> set word \<and> CHR '' '' \<notin> set tok \<and>
    authorization rq = Some (word @ '' '' @ tok) \<and>
    jwt_verify L (Some tok) (JWT_SECRET e) (arrival rq) = Inr claims"
  then have "index (split_sep (CHR '' '') (word @ '' '' @ tok)) 1 = Some tok"
    using index_split_second [of "CHR '' ''" word tok] by simp
  with a show "authMiddleware L e rq = Inr (rq\<lparr>user := Some claims\<rparr>)"
    by (intro authMiddleware_good_token [where h = "word @ '' '' @ tok"]) simp_all
next
  assume a: "authorization rq = Some h \<and> h \<noteq> [] \<and> CHR '' '' \<notin> set h \<and>
    isl (jwt_verify L None (JWT_SECRET e) (arrival rq))"
  then have "index (split_sep (CHR '' '') h) 1 = None"
    using index_split_none [of "CHR '' ''" h] by blast
  with a show "authMiddleware L e rq = Inl (json_response 401 (message ''Invalid token''))"
    by (intro authMiddleware_bad_token [where h = h]) simp_all
next
  assume "authorization rq = Some []"
  then show "authMiddleware L e rq = Inl (json_response 401 (message ''No token provided''))"
    by (simp add: authMiddleware_no_header)
qed

text \<open>A \<^verbatim>\<open>Basic\<close> header with a good token is admitted; the header \<^verbatim>\<open>Bearer\<close> alone is not.\<close>

theorem gate_ignores_scheme_witness:
  "authMiddleware stub_libs stub_env
     (bare_request\<lparr>authorization := Some ''Basic xxxxxxxxxxxxxxxxxxxx''\<rparr>) =
     Inr (bare_request\<lparr>authorization := Some ''Basic xxxxxxxxxxxxxxxxxxxx'',
                       user := Some (JObj [(''exp'', JNum 20)])\<rparr>) \<and>
   authMiddleware stub_libs stub_env (bare_request\<lparr>authorization := Some ''Bearer''\<rparr>) =
     Inl (json_response 401 (message ''Invalid token''))"
  using gate_ignores_scheme
          [of "''Basic''" "''xxxxxxxxxxxxxxxxxxxx''"
              "bare_request\<lparr>authorization := Some ''Basic xxxxxxxxxxxxxxxxxxxx''\<rparr>"
              stub_libs stub_env "JObj [(''exp'', JNum 20)]" "''Bearer''"]
        gate_ignores_scheme
          [of "''Basic''" "''xxxxxxxxxxxxxxxxxxxx''"
              "bare_request\<lparr>authorization := Some ''Bearer''\<rparr>"
              stub_libs stub_env "JObj [(''exp'', JNum 20)]" "''Bearer''"]
  by (simp add: bare_request_def stub_libs_def stub_verify_def stub_env_def)

text \<open>
  C9 as stated fails for the empty header: it contains no space, and the answer is
  "No token provided".
\<close>

theorem empty_header_counterexample:
  "CHR '' '' \<notin> set [] \<and>
   authMiddleware stub_libs stub_env (bare_request\<lparr>authorization := Some []\<rparr>) =
     Inl (json_response 401 (message ''No token provided'')) \<and>
   json_response 401 (message ''No token provided'') \<noteq> json_response 401 (message ''Invalid token'')"
  by (simp add: authMiddleware_def bare_request_def json_response_def message_def)

section \<open>Start-up\<close>

text \<open>
  C8 (as amended). In the authenticated server, when \<^verbatim>\<open>JWT_SECRET\<close> is absent (or empty)
  the module exits with code 1 before the app is created or bound, and no route handles
  a request.
\<close>

theorem missing_secret_exits:
  assumes "falsy_string (JWT_SECRET e)"
  shows "server_main L e conn = Exited 1 \<and> serve L e (server_main L e conn) r rq = None"
  using assms by (simp add: server_main_def)

theorem missing_secret_exits_witness:
  "server_main stub_libs (stub_env\<lparr>JWT_SECRET := None\<rparr>) (Some empty_db) = Exited 1 \<and>
   serve stub_libs (stub_env\<lparr>JWT_SECRET := None\<rparr>)
     (server_main stub_libs (stub_env\<lparr>JWT_SECRET := None\<rparr>) (Some empty_db))
     GET_students bare_request = None"
  using missing_secret_exits
          [of "stub_env\<lparr>JWT_SECRET := None\<rparr>" stub_libs "Some empty_db" GET_students bare_request]
  by simp

text \<open>
  C8 as stated fails for \<^verbatim>\<open>src/server.js\<close>, which never reads \<^verbatim>\<open>JWT_SECRET\<close>: without it the
  server listens and its routes answer.
\<close>

theorem legacy_server_starts_without_secret_counterexample:
  "JWT_SECRET (stub_env\<lparr>JWT_SECRET := None\<rparr>) = None \<and>
   legacy_main stub_libs (stub_env\<lparr>JWT_SECRET := None\<rparr>) (Some empty_db) =
     Listening (JNum 3000) (Some empty_db) \<and>
   legacy_serve stub_libs (legacy_main stub_libs (stub_env\<lparr>JWT_SECRET := None\<rparr>) (Some empty_db))
     LEGACY_GET_root bare_request =
     Some (\<lparr>status = 200, content = Text ''Student Management API is running''\<rparr>,
           Listening (JNum 3000) (Some empty_db))"
  by (simp add: legacy_main_def stub_libs_def stub_env_def port_def get_root_def)

section \<open>Validation of the body\<close>

lemmas response_defs = json_response_def message_def internal_error_def db_undefined_def no_content_def



lemma pick_user: "pick (rq\<lparr>user := u\<rparr>) ks = pick rq ks"
  by (simp add: pick_def)

lemma admits_cases:
  "admits L e rq \<Longrightarrow> \<exists>claims. authMiddleware L e rq = Inr (rq\<lparr>user := Some claims\<rparr>)"
  unfolding admits_def using authMiddleware_body [of L e rq]
  by (cases "authMiddleware L e rq") auto

lemma guarded_admit:
  "authMiddleware L e rq = Inr rq' \<Longrightarrow> guarded L e h rq s = h rq' s"
  by (simp add: guarded_def)









section \<open>Routes addressed by id\<close>

lemma replaceOne_miss: "findOne_id i ds = None \<Longrightarrow> replaceOne i fs ds = (0, ds)"
  by (induction ds) (auto simp: findOne_id_def split: prod.splits if_splits)

lemma deleteOne_miss: "findOne_id i ds = None \<Longrightarrow> deleteOne i ds = (0, ds)"
  by (induction ds) (auto simp: findOne_id_def split: prod.splits if_splits)


lemma names_none_cases:
  "names_none L rq ds \<Longrightarrow>
     ObjectId_isValid L (params_id rq) \<and>
     (\<exists>oid. ObjectId_new L (params_id rq) = Inr oid \<and> findOne_id oid ds = None)"
  by (auto simp: names_none_def split: sum.splits)

lemma names_none_user: "names_none L (rq\<lparr>user := u\<rparr>) ds = names_none L rq ds"
  by (simp add: names_none_def)

lemma malformed_user: "malformed L (rq\<lparr>user := u\<rparr>) = malformed L rq"
  by (simp add: malformed_def)

lemma get_students_id_400: "malformed L rq \<Longrightarrow> status (fst (get_students_id L rq s)) = 400"
  by (simp add: get_students_id_def malformed_def json_response_def)

lemma put_students_id_400: "malformed L rq \<Longrightarrow> status (fst (put_students_id L rq s)) = 400"
  by (simp add: put_students_id_def malformed_def json_response_def)

lemma delete_students_id_400: "malformed L rq \<Longrightarrow> status (fst (delete_students_id L rq s)) = 400"
  by (simp add: delete_students_id_def malformed_def json_response_def)

lemma get_courses_id_400: "malformed L rq \<Longrightarrow> status (fst (get_courses_id L rq s)) = 400"
  by (simp add: get_courses_id_def malformed_def json_response_def)

lemma put_courses_id_400: "malformed L rq \<Longrightarrow> status (fst (put_courses_id L rq s)) = 400"
  by (simp add: put_courses_id_def malformed_def json_response_def)

lemma delete_courses_id_400: "malformed L rq \<Longrightarrow> status (fst (delete_courses_id L rq s)) = 400"
  by (simp add: delete_courses_id_def malformed_def json_response_def)

lemma get_students_id_404:
  "names_none L rq (students d) \<Longrightarrow> status (fst (get_students_id L rq (Some d))) = 404"
  by (auto dest!: names_none_cases simp: get_students_id_def json_response_def)

lemma delete_students_id_404:
  "names_none L rq (students d) \<Longrightarrow> status (fst (delete_students_id L rq (Some d))) = 404"
  by (auto dest!: names_none_cases simp: delete_students_id_def json_response_def deleteOne_miss)

lemma put_students_id_404:
  "names_none L rq (students d) \<Longrightarrow> \<not> missing (pick rq student_fields) \<Longrightarrow>
     status (fst (put_students_id L rq (Some d))) = 404"
  by (auto dest!: names_none_cases simp: put_students_id_def json_response_def replaceOne_miss)

lemma get_courses_id_404:
  "names_none L rq (courses d) \<Longrightarrow> status (fst (get_courses_id L rq (Some d))) = 404"
  by (auto dest!: names_none_cases simp: get_courses_id_def json_response_def)

lemma delete_courses_id_404:
  "names_none L rq (courses d) \<Longrightarrow> status (fst (delete_courses_id L rq (Some d))) = 404"
  by (auto dest!: names_none_cases simp: delete_courses_id_def json_response_def deleteOne_miss)

lemma put_courses_id_404:
  "names_none L rq (courses d) \<Longrightarrow> \<not> missing (pick rq course_fields) \<Longrightarrow>
     status (fst (put_courses_id L rq (Some d))) = 404"
  by (auto dest!: names_none_cases simp: put_courses_id_def json_response_def replaceOne_miss)

lemma app_admitted:
  assumes "admits L e rq"
  obtains claims where
    "app L e PUT_students_id rq s = put_students_id L (rq\<lparr>user := Some claims\<rparr>) s"
    "app L e DELETE_students_id rq s = delete_students_id L (rq\<lparr>user := Some claims\<rparr>) s"
    "app L e PUT_courses_id rq s = put_courses_id L (rq\<lparr>user := Some claims\<rparr>) s"
    "app L e DELETE_courses_id rq s = delete_courses_id L (rq\<lparr>user := Some claims\<rparr>) s"
    "app L e POST_students rq s = post_students (rq\<lparr>user := Some claims\<rparr>) s"
    "app L e POST_courses rq s = post_courses (rq\<lparr>user := Some claims\<rparr>) s"
  using admits_cases [OF assms] by (auto simp: guarded_admit)

text \<open>
  C5 (as amended). In the authenticated server, \<^verbatim>\<open>GET /students/:id\<close> and
  \<^verbatim>\<open>GET /courses/:id\<close> answer 400 to a malformed id and, on a connected database, 404 to a
  well-formed id that names no document. \<^verbatim>\<open>PUT\<close> and \<^verbatim>\<open>DELETE\<close> do the same once the gate
  has admitted the request, the 404 of a \<^verbatim>\<open>PUT\<close> also needing every required field.
\<close>

theorem id_routes_malformed_and_unknown:
  "(malformed L rq \<longrightarrow>
      status (fst (app L e GET_students_id rq s)) = 400 \<and>
      status (fst (app L e GET_courses_id rq s)) = 400) \<and>
   (malformed L rq \<and> admits L e rq \<longrightarrow>
      status (fst (app L e PUT_students_id rq s)) = 400 \<and>
      status (fst (app L e DELETE_students_id rq s)) = 400 \<and>
      status (fst (app L e PUT_courses_id rq s)) = 400 \<and>
      status (fst (app L e DELETE_courses_id rq s)) = 400) \<and>
   (names_none L rq (students d) \<longrightarrow>
      status (fst (app L e GET_students_id rq (Some d))) = 404) \<and>
   (names_none L rq (courses d) \<longrightarrow>
      status (fst (app L e GET_courses_id rq (Some d))) = 404) \<and>
   (names_none L rq (students d) \<and> admits L e rq \<longrightarrow>
      status (fst (app L e DELETE_students_id rq (Some d))) = 404) \<and>
   (names_none L rq (courses d) \<and> admits L e rq \<longrightarrow>
      status (fst (app L e DELETE_courses_id rq (Some d))) = 404) \<and>
   (names_none L rq (students d) \<and> admits L e rq \<and> \<not> missing (pick rq student_fields) \<longrightarrow>
      status (fst (app L e PUT_students_id rq (Some d))) = 404) \<and>
   (names_none L rq (courses d) \<and> admits L e rq \<and> \<not> missing (pick rq course_fields) \<longrightarrow>
      status (fst (app L e PUT_courses_id rq (Some d))) = 404)"
proof -
  have gets: "malformed L rq \<longrightarrow>
      status (fst (app L e GET_students_id rq s)) = 400 \<and>
      status (fst (app L e GET_courses_id rq s)) = 400"
    by (simp add: get_students_id_400 get_courses_id_400)
  have writes: "malformed L rq \<and> admits L e rq \<longrightarrow>
      status (fst (app L e PUT_students_id rq s)) = 400 \<and>
      status (fst (app L e DELETE_students_id rq s)) = 400 \<and>
      status (fst (app L e PUT_courses_id rq s)) = 400 \<and>
      status (fst (app L e DELETE_courses_id rq s)) = 400"
  proof
    assume a: "malformed L rq \<and> admits L e rq"
    then obtain claims where
      "app L e PUT_students_id rq s = put_students_id L (rq\<lparr>user := Some claims\<rparr>) s"
      "app L e DELETE_students_id rq s = delete_students_id L (rq\<lparr>user := Some claims\<rparr>) s"
      "app L e PUT_courses_id rq s = put_courses_id L (rq\<lparr>user := Some claims\<rparr>) s"
      "app L e DELETE_courses_id rq s = delete_courses_id L (rq\<lparr>user := Some claims\<rparr>) s"
      using app_admitted [of L e rq s] by metis
    with a show "status (fst (app L e PUT_students_id rq s)) = 400 \<and>
      status (fst (app L e DELETE_students_id rq s)) = 400 \<and>
      status (fst (app L e PUT_courses_id rq s)) = 400 \<and>
      status (fst (app L e DELETE_courses_id rq s)) = 400"
      by (simp add: put_students_id_400 delete_students_id_400 put_courses_id_400
            delete_courses_id_400 malformed_user)
  qed
  have get_s: "names_none L rq (students d) \<longrightarrow>
      status (fst (app L e GET_students_id rq (Some d))) = 404"
    by (simp add: get_students_id_404)
  have get_c: "names_none L rq (courses d) \<longrightarrow>
      status (fst (app L e GET_courses_id rq (Some d))) = 404"
    by (simp add: get_courses_id_404)
  have del_s: "names_none L rq (students d) \<and> admits L e rq \<longrightarrow>
      status (fst (app L e DELETE_students_id rq (Some d))) = 404"
  proof
    assume a: "names_none L rq (students d) \<and> admits L e rq"
    then obtain claims where
      "app L e DELETE_students_id rq (Some d) =
         delete_students_id L (rq\<lparr>user := Some claims\<rparr>) (Some d)"
      using app_admitted [of L e rq "Some d"] by metis
    with a show "status (fst (app L e DELETE_students_id rq (Some d))) = 404"
      by (simp add: delete_students_id_404 names_none_user)
  qed
  have del_c: "names_none L rq (courses d) \<and> admits L e rq \<longrightarrow>
      status (fst (app L e DELETE_courses_id rq (Some d))) = 404"
  proof
    assume a: "names_none L rq (courses d) \<and> admits L e rq"
    then obtain claims where
      "app L e DELETE_courses_id rq (Some d) =
         delete_courses_id L (rq\<lparr>user := Some claims\<rparr>) (Some d)"
      using app_admitted [of L e rq "Some d"] by metis
    with a show "status (fst (app L e DELETE_courses_id rq (Some d))) = 404"
      by (simp add: delete_courses_id_404 names_none_user)
  qed
  have put_s: "names_none L rq (students d) \<and> admits L e rq \<and>
      \<not> missing (pick rq student_fields) \<longrightarrow>
      status (fst (app L e PUT_students_id rq (Some d))) = 404"
  proof
    assume a: "names_none L rq (students d) \<and> admits L e rq \<and>
      \<not> missing (pick rq student_fields)"
    then obtain claims where
      "app L e PUT_students_id rq (Some d) =
         put_students_id L (rq\<lparr>user := Some claims\<rparr>) (Some d)"
      using app_admitted [of L e rq "Some d"] by metis
    with a show "status (fst (app L e PUT_students_id rq (Some d))) = 404"
      by (simp add: put_students_id_404 names_none_user pick_user)
  qed
  have put_c: "names_none L rq (courses d) \<and> admits L e rq \<and>
      \<not> missing (pick rq course_fields) \<longrightarrow>
      status (fst (app L e PUT_courses_id rq (Some d))) = 404"
  proof
    assume a: "names_none L rq (courses d) \<and> admits L e rq \<and>
      \<not> missing (pick rq course_fields)"
    then obtain claims where
      "app L e PUT_courses_id rq (Some d) =
         put_courses_id L (rq\<lparr>user := Some claims\<rparr>) (Some d)"
      using app_admitted [of L e rq "Some d"] by metis
    with a show "status (fst (app L e PUT_courses_id rq (Some d))) = 404"
      by (simp add: put_courses_id_404 names_none_user pick_user)
  qed
  from gets writes get_s get_c del_s del_c put_s put_c show ?thesis by blast
qed

lemma stub_ObjectId_samples:
  "stub_isValid ''000000000000000000000001''"
  "stub_ObjectId ''000000000000000000000001'' = Inr 1"
  "stub_isValid ''0000000000000000000000ff''"
  "stub_ObjectId ''0000000000000000000000ff'' = Inr 255"
  "\<not> stub_isValid ''not-an-id''"
  "stub_ObjectId ''not-an-id'' = Inl ''input must be a 24 character hex string''"
  by (simp_all add: stub_isValid_def stub_ObjectId_def hex_value_def)

lemma unknown_id_request_facts:
  "names_none stub_libs unknown_id_request (students old_db)"
  "admits stub_libs stub_env unknown_id_request"
  "\<not> missing (pick unknown_id_request student_fields)"
  "malformed stub_libs bare_request"
  by (simp_all add: names_none_def malformed_def unknown_id_request_def signed_request_def
        bare_request_def stub_libs_def stub_ObjectId_samples old_db_def findOne_id_def
        admits_def authMiddleware_def stub_verify_def stub_env_def index_def
        missing_def pick_def student_fields_def student_body_def)

theorem id_routes_malformed_and_unknown_witness:
  "status (fst (app stub_libs stub_env GET_students_id bare_request (Some old_db))) = 400 \<and>
   status (fst (app stub_libs stub_env GET_students_id unknown_id_request (Some old_db))) = 404 \<and>
   status (fst (app stub_libs stub_env PUT_students_id unknown_id_request (Some old_db))) = 404"
  using id_routes_malformed_and_unknown
          [where L = stub_libs and e = stub_env and rq = bare_request and s = "Some old_db"
             and d = old_db]
        id_routes_malformed_and_unknown
          [where L = stub_libs and e = stub_env and rq = unknown_id_request and s = "Some old_db"
             and d = old_db]
  by (simp add: unknown_id_request_facts)

text \<open>
  C5 as stated fails three times: a \<^verbatim>\<open>DELETE\<close> with a malformed id and no token is answered
  401; \<^verbatim>\<open>PUT /students/:id\<close> of \<^verbatim>\<open>src/server.js\<close>, which never validates the id, answers a
  malformed id with the 500 of the thrown error; and an admitted \<^verbatim>\<open>PUT\<close> with an unknown id
  and an empty body is answered 400.
\<close>

theorem id_routes_counterexample:
  "malformed stub_libs bare_request \<and>
   status (fst (app stub_libs stub_env DELETE_students_id bare_request (Some old_db))) = 401 \<and>
   status (fst (legacy_app stub_libs LEGACY_PUT_students_id bare_request (Some old_db))) = 500 \<and>
   names_none stub_libs (unknown_id_request\<lparr>body := []\<rparr>) (students old_db) \<and>
   admits stub_libs stub_env (unknown_id_request\<lparr>body := []\<rparr>) \<and>
   status (fst (app stub_libs stub_env PUT_students_id (unknown_id_request\<lparr>body := []\<rparr>)
                  (Some old_db))) = 400"
  by (simp add: names_none_def malformed_def unknown_id_request_def signed_request_def
        bare_request_def stub_libs_def stub_ObjectId_samples old_db_def findOne_id_def
        admits_def authMiddleware_def stub_verify_def stub_env_def index_def
        missing_def pick_def student_fields_def guarded_def response_defs
        legacy_put_students_id_def put_students_id_def)

section \<open>Replacement on update\<close>










section \<open>Registration and login\<close>

lemma matches_plain:
  "\<not> is_operator em \<Longrightarrow>
     matches L (Some em) v = Inr (v = Some em \<or> (em = JNull \<and> v = None) \<or> array_contains v em)"
  by (simp add: matches_def)

lemma findOne_email_none:
  "\<not> is_operator em \<Longrightarrow> findOne_email L (Some em) ds = Inr None \<Longrightarrow> filter (with_email em) ds = []"
  by (induction ds) (auto simp: matches_plain with_email_def split: if_splits bool.splits)

lemma findOne_email_snoc:
  "\<not> is_operator em \<Longrightarrow> findOne_email L (Some em) ds = Inr None \<Longrightarrow> with_email em u \<Longrightarrow>
     findOne_email L (Some em) (ds @ [u]) = Inr (Some u)"
  by (induction ds) (auto simp: matches_plain with_email_def split: if_splits bool.splits)

text \<open>
  C3. Registering twice, one request after the other, with the same email (any value that
  is not an operator document, so any string) and non-empty passwords, when no user
  matches the email yet and the hash succeeds: the first request is answered 201, the
  second 400 \<^verbatim>\<open>{message: "User already exists"}\<close>, and afterwards exactly one user
  document carries that email.
\<close>

theorem register_twice:
  assumes e1: "map_of (body rqa) ''email'' = Some em"
    and e2: "map_of (body rqb) ''email'' = Some em"
    and em: "truthy (Some em)" "\<not> is_operator em"
    and p1: "truthy (map_of (body rqa) ''password'')"
    and p2: "truthy (map_of (body rqb) ''password'')"
    and fresh: "findOne_email L (Some em) (users d) = Inr None"
    and hash: "bcrypt_hash L (map_of (body rqa) ''password'') 10 = Inr h"
  shows "\<exists>da. app L e POST_auth_register rqa (Some d) =
                (json_response 201 (JObj [(''message'', JStr ''User created''),
                                          (''id'', JOid (next_id d))]), Some da) \<and>
              app L e POST_auth_register rqb (Some da) =
                (json_response 400 (message ''User already exists''), Some da) \<and>
              length (filter (with_email em) (users da)) = 1"
proof -
  define u where "u = \<lparr>ident = next_id d,
    entries = [(''email'', em), (''password'', JStr h), (''createdAt'', JDate (arrival rqa))]\<rparr>"
  define da where "da = d\<lparr>users := users d @ [u], next_id := Suc (next_id d)\<rparr>"
  have u: "with_email em u"
    by (simp add: u_def with_email_def)
  have first: "post_auth_register L rqa (Some d) =
      (json_response 201 (JObj [(''message'', JStr ''User created''), (''id'', JOid (next_id d))]),
       Some da)"
    using e1 em p1 fresh hash
    by (simp add: post_auth_register_def Let_def insertOne_def da_def u_def)
  have found: "findOne_email L (Some em) (users da) = Inr (Some u)"
    using findOne_email_snoc [OF em(2) fresh u] by (simp add: da_def)
  have second: "post_auth_register L rqb (Some da) =
      (json_response 400 (message ''User already exists''), Some da)"
    using e2 em p2 found by (simp add: post_auth_register_def Let_def)
  have "filter (with_email em) (users da) = [u]"
    using findOne_email_none [OF em(2) fresh] u by (simp add: da_def)
  then have "length (filter (with_email em) (users da)) = 1"
    by simp
  with first second show ?thesis
    by auto
qed

lemma register_sample:
  "findOne_email stub_libs (Some (JStr ''c@d.org'')) (users users_db) = Inr None"
  "bcrypt_hash stub_libs (map_of (body (login_request ''c@d.org'' ''pw'')) ''password'') 10 =
     Inr ''$stub$wp''"
  by (simp_all add: users_db_def matches_def stub_libs_def login_request_def)

theorem register_twice_witness:
  "\<exists>da. app stub_libs stub_env POST_auth_register (login_request ''c@d.org'' ''pw'') (Some users_db) =
           (json_response 201 (JObj [(''message'', JStr ''User created''), (''id'', JOid 8)]),
            Some da) \<and>
         app stub_libs stub_env POST_auth_register (login_request ''c@d.org'' ''other'') (Some da) =
           (json_response 400 (message ''User already exists''), Some da) \<and>
         length (filter (with_email (JStr ''c@d.org'')) (users da)) = 1"
proof -
  have "next_id users_db = 8"
    by (simp add: users_db_def)
  with register_twice
         [where L = stub_libs and e = stub_env and d = users_db and em = "JStr ''c@d.org''"
            and rqa = "login_request ''c@d.org'' ''pw''"
            and rqb = "login_request ''c@d.org'' ''other''" and h = "''$stub$wp''",
          OF _ _ _ _ _ _ register_sample]
  show ?thesis
    by (simp add: login_request_def)
qed




lemma register_201:
  assumes "post_auth_register L rq (Some d) = (res, s')" and "status res = 201"
  shows "\<exists>h. bcrypt_hash L (map_of (body rq) ''password'') 10 = Inr h \<and>
           s' = Some (d\<lparr>users := users d @
                         [\<lparr>ident = next_id d,
                           entries = [(''email'', bson (map_of (body rq) ''email'')),
                                      (''password'', JStr h),
                                      (''createdAt'', JDate (arrival rq))]\<rparr>],
                       next_id := Suc (next_id d)\<rparr>) \<and>
           res = json_response 201
                   (JObj [(''message'', JStr ''User created''), (''id'', JOid (next_id d))])"
  using assms
  by (auto simp: post_auth_register_def Let_def response_defs insertOne_def
        split: if_splits sum.splits option.splits)

lemma register_password_free:
  assumes "map_of (body rqa) ''email'' = map_of (body rqb) ''email''"
    and "truthy (map_of (body rqa) ''password'')" and "truthy (map_of (body rqb) ''password'')"
    and "\<not> isl (bcrypt_hash L (map_of (body rqa) ''password'') 10)"
    and "\<not> isl (bcrypt_hash L (map_of (body rqb) ''password'') 10)"
  shows "fst (post_auth_register L rqa s) = fst (post_auth_register L rqb s)"
  using assms
  by (auto simp: post_auth_register_def Let_def split: sum.splits option.splits)

lemma login_outcomes:
  assumes "post_auth_login L e rq (Some d) = (res, s')" and "status res \<noteq> 500"
  shows "res = json_response 401 (message ''Invalid credentials'') \<or>
         (\<exists>u tok. findOne_email L (map_of (body rq) ''email'') (users d) = Inr (Some u) \<and>
            jwt_sign L (JObj [(''userId'', JOid (ident u))]) (JWT_SECRET e) ''1h'' (arrival rq) =
              Inr tok \<and>
            res = json_response 200 (JObj [(''token'', JStr tok)]))"
  using assms
  by (auto simp: post_auth_login_def Let_def response_defs
        split: if_splits sum.splits option.splits)

lemma reads_ignore_users:
  "fst (get_students rq (Some (d\<lparr>users := us\<rparr>))) = fst (get_students rq (Some d))"
  "fst (get_courses rq (Some (d\<lparr>users := us\<rparr>))) = fst (get_courses rq (Some d))"
  "fst (get_students_id L rq (Some (d\<lparr>users := us\<rparr>))) = fst (get_students_id L rq (Some d))"
  "fst (get_courses_id L rq (Some (d\<lparr>users := us\<rparr>))) = fst (get_courses_id L rq (Some d))"
  by (simp_all add: get_students_def get_courses_def get_students_id_def get_courses_id_def Let_def
        split: sum.splits option.splits)

text \<open>
  C6. A successful registration appends one user document whose \<^verbatim>\<open>password\<close> field is the
  output of \<^verbatim>\<open>bcrypt.hash(password, 10)\<close>, beside the email and the creation time, and
  answers with the new id only; the answer to a registration does not depend on the
  password; a login is answered (short of a 500) with the fixed 401 or with a token
  signed over the user's id; and what the student and course reads answer does not depend
  on the users collection.
\<close>

theorem password_hashed_and_not_returned:
  "(app L e POST_auth_register rq (Some d) = (res, s') \<and> status res = 201 \<longrightarrow>
      (\<exists>h. bcrypt_hash L (map_of (body rq) ''password'') 10 = Inr h \<and>
         s' = Some (d\<lparr>users := users d @
                       [\<lparr>ident = next_id d,
                         entries = [(''email'', bson (map_of (body rq) ''email'')),
                                    (''password'', JStr h),
                                    (''createdAt'', JDate (arrival rq))]\<rparr>],
                     next_id := Suc (next_id d)\<rparr>) \<and>
         res = json_response 201
                 (JObj [(''message'', JStr ''User created''), (''id'', JOid (next_id d))]))) \<and>
   (map_of (body rq) ''email'' = map_of (body rq') ''email'' \<and>
    truthy (map_of (body rq) ''password'') \<and> truthy (map_of (body rq') ''password'') \<and>
    \<not> isl (bcrypt_hash L (map_of (body rq) ''password'') 10) \<and>
    \<not> isl (bcrypt_hash L (map_of (body rq') ''password'') 10) \<longrightarrow>
      fst (app L e POST_auth_register rq s) = fst (app L e POST_auth_register rq' s)) \<and>
   (app L e POST_auth_login rq (Some d) = (res, s') \<and> status res \<noteq> 500 \<longrightarrow>
      res = json_response 401 (message ''Invalid credentials'') \<or>
      (\<exists>u tok. findOne_email L (map_of (body rq) ''email'') (users d) = Inr (Some u) \<and>
         jwt_sign L (JObj [(''userId'', JOid (ident u))]) (JWT_SECRET e) ''1h'' (arrival rq) =
           Inr tok \<and>
         res = json_response 200 (JObj [(''token'', JStr tok)]))) \<and>
   (r \<in> {GET_students, GET_students_id, GET_courses, GET_courses_id} \<longrightarrow>
      fst (app L e r rq (Some (d\<lparr>users := us\<rparr>))) = fst (app L e r rq (Some d)))"
proof (intro conjI impI)
  assume "app L e POST_auth_register rq (Some d) = (res, s') \<and> status res = 201"
  then show "\<exists>h. bcrypt_hash L (map_of (body rq) ''password'') 10 = Inr h \<and>
         s' = Some (d\<lparr>users := users d @
                       [\<lparr>ident = next_id d,
                         entries = [(''email'', bson (map_of (body rq) ''email'')),
                                    (''password'', JStr h),
                                    (''createdAt'', JDate (arrival rq))]\<rparr>],
                     next_id := Suc (next_id d)\<rparr>) \<and>
         res = json_response 201
                 (JObj [(''message'', JStr ''User created''), (''id'', JOid (next_id d))])"
    using register_201 [of L rq d res s'] by simp
next
  assume "map_of (body rq) ''email'' = map_of (body rq') ''email'' \<and>
    truthy (map_of (body rq) ''password'') \<and> truthy (map_of (body rq') ''password'') \<and>
    \<not> isl (bcrypt_hash L (map_of (body rq) ''password'') 10) \<and>
    \<not> isl (bcrypt_hash L (map_of (body rq') ''password'') 10)"
  then show "fst (app L e POST_auth_register rq s) = fst (app L e POST_auth_register rq' s)"
    using register_password_free [of rq rq' L s] by simp
next
  assume "app L e POST_auth_login rq (Some d) = (res, s') \<and> status res \<noteq> 500"
  then show "res = json_response 401 (message ''Invalid credentials'') \<or>
      (\<exists>u tok. findOne_email L (map_of (body rq) ''email'') (users d) = Inr (Some u) \<and>
         jwt_sign L (JObj [(''userId'', JOid (ident u))]) (JWT_SECRET e) ''1h'' (arrival rq) =
           Inr tok \<and>
         res = json_response 200 (JObj [(''token'', JStr tok)]))"
    using login_outcomes [of L e rq d res s'] by simp
next
  assume "r \<in> {GET_students, GET_students_id, GET_courses, GET_courses_id}"
  then show "fst (app L e r rq (Some (d\<lparr>users := us\<rparr>))) = fst (app L e r rq (Some d))"
    by (auto simp: reads_ignore_users)
qed

lemma register_run:
  "app stub_libs stub_env POST_auth_register (login_request ''c@d.org'' ''pw'') (Some users_db) =
     (json_response 201 (JObj [(''message'', JStr ''User created''), (''id'', JOid 8)]),
      Some (users_db\<lparr>users := users users_db @
                        [\<lparr>ident = 8, entries = [(''email'', JStr ''c@d.org''),
                                                 (''password'', JStr ''$stub$wp''),
                                                 (''createdAt'', JDate 0)]\<rparr>],
                      next_id := 9\<rparr>))"
  by (simp add: post_auth_register_def login_request_def users_db_def matches_def stub_libs_def
        insertOne_def)

theorem password_hashed_and_not_returned_witness:
  "bcrypt_hash stub_libs (Some (JStr ''pw'')) 10 = Inr ''$stub$wp'' \<and>
   app stub_libs stub_env POST_auth_register (login_request ''c@d.org'' ''pw'') (Some users_db) =
     (json_response 201 (JObj [(''message'', JStr ''User created''), (''id'', JOid 8)]),
      Some (users_db\<lparr>users := users users_db @
                        [\<lparr>ident = 8, entries = [(''email'', JStr ''c@d.org''),
                                                 (''password'', JStr ''$stub$wp''),
                                                 (''createdAt'', JDate 0)]\<rparr>],
                      next_id := 9\<rparr>)) \<and>
   fst (app stub_libs stub_env GET_students bare_request (Some (users_db\<lparr>users := []\<rparr>))) =
     fst (app stub_libs stub_env GET_students bare_request (Some users_db))"
proof -
  have st: "status (json_response 201 (JObj [(''message'', JStr ''User created''), (''id'', JOid 8)]))
      = 201"
    by (simp add: json_response_def)
  note inst = password_hashed_and_not_returned
    [where L = stub_libs and e = stub_env and rq = "login_request ''c@d.org'' ''pw''"
       and d = users_db]
  from inst [where r = GET_students and rq' = bare_request and s = None, THEN conjunct1]
       register_run st
  have "\<exists>h. bcrypt_hash stub_libs (map_of (body (login_request ''c@d.org'' ''pw'')) ''password'')
               10 = Inr h"
    by blast
  then have h: "bcrypt_hash stub_libs (Some (JStr ''pw'')) 10 = Inr ''$stub$wp''"
    by (simp add: login_request_def stub_libs_def)
  from password_hashed_and_not_returned
         [where L = stub_libs and e = stub_env and rq = bare_request and d = users_db
            and r = GET_students and us = "[]"]
  have "fst (app stub_libs stub_env GET_students bare_request (Some (users_db\<lparr>users := []\<rparr>))) =
     fst (app stub_libs stub_env GET_students bare_request (Some users_db))"
    by blast
  with h register_run show ?thesis
    by blast
qed

section \<open>Expiry of the login token\<close>

lemma login_200:
  assumes "post_auth_login L e rq s = (json_response 200 (JObj [(''token'', JStr tok)]), s')"
  shows "\<exists>payload. jwt_sign L payload (JWT_SECRET e) ''1h'' (arrival rq) = Inr tok"
  using assms
  by (auto simp: post_auth_login_def Let_def response_defs
        split: if_splits sum.splits option.splits)

text \<open>
  C7. With a token library that honours the one-hour expiry, the token of a successful
  login, sent as \<^verbatim>\<open>Bearer <token>\<close>, passes the gate at every time before one hour
  has elapsed since the login and is answered 401 \<^verbatim>\<open>{message: "Invalid token"}\<close> from
  then on.
\<close>

theorem login_token_valid_for_one_hour:
  assumes lib: "jwt_one_hour L"
    and login: "app L e POST_auth_login rqi s =
                  (json_response 200 (JObj [(''token'', JStr tok)]), s')"
    and header: "authorization rq = Some (''Bearer '' @ tok)"
    and later: "arrival rqi \<le> arrival rq"
  shows "(arrival rq < arrival rqi + 3600 \<longrightarrow> admits L e rq) \<and>
         (arrival rqi + 3600 \<le> arrival rq \<longrightarrow>
            authMiddleware L e rq = Inl (json_response 401 (message ''Invalid token'')))"
proof -
  from login obtain payload where
    sign: "jwt_sign L payload (JWT_SECRET e) ''1h'' (arrival rqi) = Inr tok"
    using login_200 [of L e rqi s tok s'] by auto
  from lib sign have nosp: "CHR '' '' \<notin> set tok"
    and exp: "isl (jwt_verify L (Some tok) (JWT_SECRET e) (arrival rq)) =
                (arrival rqi + 3600 \<le> arrival rq)"
    using later unfolding jwt_one_hour_def by blast+
  have tok: "index (split_sep (CHR '' '') (''Bearer '' @ tok)) 1 = Some tok"
    using index_split_second [of "CHR '' ''" "''Bearer''" tok] nosp by simp
  show ?thesis
  proof (intro conjI impI)
    assume "arrival rq < arrival rqi + 3600"
    with exp obtain claims where
      "jwt_verify L (Some tok) (JWT_SECRET e) (arrival rq) = Inr claims"
      by (cases "jwt_verify L (Some tok) (JWT_SECRET e) (arrival rq)") auto
    with header tok have "authMiddleware L e rq = Inr (rq\<lparr>user := Some claims\<rparr>)"
      by (intro authMiddleware_good_token [where h = "''Bearer '' @ tok"]) simp_all
    then show "admits L e rq"
      by (simp add: admits_def)
  next
    assume "arrival rqi + 3600 \<le> arrival rq"
    with exp header tok
    show "authMiddleware L e rq = Inl (json_response 401 (message ''Invalid token''))"
      by (intro authMiddleware_bad_token [where h = "''Bearer '' @ tok"]) simp_all
  qed
qed

lemma stub_one_hour: "jwt_one_hour stub_libs"
  by (auto simp: jwt_one_hour_def stub_libs_def stub_sign_def stub_verify_def list_all_iff
        split: if_splits)

lemma login_run:
  "app stub_libs stub_env POST_auth_login (login_request ''a@b.com'' ''pw'') (Some users_db) =
     (json_response 200 (JObj [(''token'', JStr (replicate 3600 (CHR ''x'')))]), Some users_db)"
  by (simp add: post_auth_login_def login_request_def users_db_def matches_def stub_libs_def
        stub_env_def stub_sign_def)

theorem login_token_valid_for_one_hour_witness:
  "app stub_libs stub_env POST_auth_login (login_request ''a@b.com'' ''pw'') (Some users_db) =
     (json_response 200 (JObj [(''token'', JStr (replicate 3600 (CHR ''x'')))]), Some users_db) \<and>
   admits stub_libs stub_env
     (bare_request\<lparr>authorization := Some (''Bearer '' @ replicate 3600 (CHR ''x'')),
                   arrival := 3599\<rparr>) \<and>
   authMiddleware stub_libs stub_env
     (bare_request\<lparr>authorization := Some (''Bearer '' @ replicate 3600 (CHR ''x'')),
                   arrival := 3600\<rparr>) =
     Inl (json_response 401 (message ''Invalid token''))"
  using login_token_valid_for_one_hour
          [OF stub_one_hour login_run,
           where rq = "bare_request\<lparr>authorization := Some (''Bearer '' @ replicate 3600 (CHR ''x'')),
                                       arrival := 3599\<rparr>"]
        login_token_valid_for_one_hour
          [OF stub_one_hour login_run,
           where rq = "bare_request\<lparr>authorization := Some (''Bearer '' @ replicate 3600 (CHR ''x'')),
                                       arrival := 3600\<rparr>"]
        login_run
  by (simp add: login_request_def)

end
